theory Spec2Isabelle
  imports Main
begin

section \<open>Values, entities and view state of the chat page\<close>

text \<open>
  The page component \<open>HomePage\<close> keeps its data in React state cells and changes them
  from event handlers that talk to the assistant API with \<open>fetch\<close>. Each handler is
  embedded as a function from the network's answers and the state at the moment the
  handler starts to the state after it settles, together with the trace of requests and
  console messages it issued. A handler reads the state cells through the closure of the
  render that created it, so every read of \<open>activeSessionId\<close>, \<open>chatInput\<close> or
  \<open>editingId\<close> inside a handler sees the value at the start of the handler; the setters
  are applied in program order. Handlers are taken one at a time: the interleaving of two
  handlers that are both waiting for the network is outside this model.
\<close>

text \<open>
  Identifiers arrive from JSON and are compared and tested as JavaScript values:
  \<open>!sessionId\<close>, \<open>typeof id !== "number"\<close>, \<open>===\<close>. Numbers are the integers of
  the data model.
\<close>

datatype jsval = JUndefined | JNull | JNum int | JStr string

fun truthy :: "jsval \<Rightarrow> bool" where
  "truthy JUndefined = False"
| "truthy JNull = False"
| "truthy (JNum n) = (n \<noteq> 0)"
| "truthy (JStr s) = (s \<noteq> [])"

fun is_number :: "jsval \<Rightarrow> bool" where
  "is_number (JNum n) = True"
| "is_number v = False"

record session =
  session_id :: jsval
  title :: "string option"
  session_created :: string

record message =
  message_id :: jsval
  message_session :: jsval
  role :: string
  message_text :: string
  message_created :: string

record state =
  sessions :: "session list"
  activeSessionId :: jsval
  history :: "message list"
  loading :: bool
  error :: string
  chatInput :: string
  chatLoading :: bool
  editingId :: jsval
  editingOriginalText :: string

text \<open>The values of \<open>useState\<close> at the first render.\<close>

definition initial_state :: state where
  "initial_state =
     \<lparr>sessions = [], activeSessionId = JNull, history = [], loading = False,
      error = [], chatInput = [], chatLoading = False, editingId = JNull,
      editingOriginalText = []\<rparr>"

section \<open>The network\<close>

text \<open>
  A \<open>fetch\<close> either rejects with an error (its message is kept) or resolves with a
  response. Of a response the code reads \<open>status\<close>, \<open>statusText\<close>, \<open>ok\<close>, the body
  as text and the body as JSON; \<open>res.json()\<close> throws on a body that is not JSON
  (\<open>Inl\<close> carries the message of that error) and otherwise yields the payload of the
  endpoint, typed as the interface table of the API gives it.
\<close>

datatype 'a response =
  Response (status: nat) (statusText: string) (body_text: string) (body_json: "string + 'a")

datatype 'a fetched = Rejected string | Resolved "'a response"

definition ok :: "'a response \<Rightarrow> bool" where
  "ok res = (200 \<le> status res \<and> status res \<le> 299)"

datatype request =
    GET_sessions
  | POST_sessions
  | DELETE_session jsval
  | GET_messages jsval
  | POST_chat string jsval
  | PATCH_message jsval string
  | POST_regenerate jsval
  | DELETE_message jsval

text \<open>
  What the server answers to each request while one handler runs. No handler issues the
  same request twice, so a function of the request describes every possible run.
\<close>

record net =
  get_sessions :: "session list fetched"
  post_sessions :: "session fetched"
  delete_session :: "jsval \<Rightarrow> unit fetched"
  get_messages :: "jsval \<Rightarrow> message list fetched"
  post_chat :: "string \<Rightarrow> jsval \<Rightarrow> unit fetched"
  patch_message :: "jsval \<Rightarrow> string \<Rightarrow> message fetched"
  post_regenerate :: "jsval \<Rightarrow> unit fetched"
  delete_message :: "jsval \<Rightarrow> unit fetched"

datatype event = Fetch request | ConsoleError "string list"

section \<open>Strings\<close>

text \<open>
  \<open>String.prototype.trim\<close> removes white space at both ends. Characters here are
  the code points below 256, where the white space and line terminators of the language
  are tab, line feed, vertical tab, form feed, carriage return, space and no-break space.
\<close>

definition is_ws :: "char \<Rightarrow> bool" where
  "is_ws c = (of_char c \<in> {9, 10, 11, 12, 13, 32, 160 :: nat})"

definition trim :: "string \<Rightarrow> string" where
  "trim s = rev (dropWhile is_ws (rev (dropWhile is_ws s)))"

text \<open>The decimal digits of a status code inside a template literal.\<close>

fun string_of_nat :: "nat \<Rightarrow> string" where
  "string_of_nat n =
     (if n < 10 then [char_of (48 + n)]
      else string_of_nat (n div 10) @ [char_of (48 + n mod 10)])"

declare string_of_nat.simps [simp del]

text \<open>\<open>err.message || "..."\<close>: the empty message is falsy.\<close>

definition or_default :: "string \<Rightarrow> string \<Rightarrow> string" where
  "or_default msg dflt = (if msg = [] then dflt else msg)"

section \<open>Handlers\<close>

text \<open>
  \<open>fetchMessages(sessionId = activeSessionId)\<close>: the default applies when the argument
  is \<open>undefined\<close>, and then reads the closure's \<open>activeSessionId\<close>, passed here as
  \<open>active\<close>. The function catches its own errors and never throws.
\<close>

definition fetchMessages :: "net \<Rightarrow> jsval \<Rightarrow> jsval \<Rightarrow> state \<Rightarrow> state \<times> event list" where
  "fetchMessages nw active arg st =
     (let sessionId = (if arg = JUndefined then active else arg) in
      if \<not> truthy sessionId then (st, [])
      else
        let st1 = st\<lparr>loading := True, error := []\<rparr>;
            st2 =
              (case get_messages nw sessionId of
                 Rejected msg \<Rightarrow> st1\<lparr>error := or_default msg ''Failed to fetch messages''\<rparr>
               | Resolved res \<Rightarrow>
                   if \<not> ok res then
                     st1\<lparr>error := or_default
                        (''Failed to fetch messages: '' @ string_of_nat (status res))
                        ''Failed to fetch messages''\<rparr>
                   else
                     (case body_json res of
                        Inl msg \<Rightarrow> st1\<lparr>error := or_default msg ''Failed to fetch messages''\<rparr>
                      | Inr data \<Rightarrow> st1\<lparr>history := data\<rparr>))
        in (st2\<lparr>loading := False\<rparr>, [Fetch (GET_messages sessionId)]))"

definition handleCreateNewChat :: "net \<Rightarrow> state \<Rightarrow> state \<times> event list" where
  "handleCreateNewChat nw st =
     (let st1 = st\<lparr>error := []\<rparr> in
      case post_sessions nw of
        Rejected msg \<Rightarrow>
          (st1\<lparr>error := or_default msg ''Failed to create new chat''\<rparr>, [Fetch POST_sessions])
      | Resolved res \<Rightarrow>
          if \<not> ok res then
            (st1\<lparr>error := or_default
               (''Failed to create session: '' @ string_of_nat (status res) @ '' ''
                  @ statusText res @ '' - '' @ body_text res)
               ''Failed to create new chat''\<rparr>,
             [Fetch POST_sessions])
          else
            (case body_json res of
               Inl msg \<Rightarrow>
                 (st1\<lparr>error := or_default msg ''Failed to create new chat''\<rparr>,
                  [Fetch POST_sessions])
             | Inr created \<Rightarrow>
                 (st1\<lparr>activeSessionId := session_id created,
                      sessions := created # sessions st1,
                      history := [],
                      chatInput := []\<rparr>,
                  [Fetch POST_sessions])))"

text \<open>
  \<open>fetchSessions\<close> runs once when the page mounts. Its failures go to the console; the
  call of \<open>fetchMessages\<close> is not awaited, and runs after the two setters.
\<close>

definition fetchSessions :: "net \<Rightarrow> state \<Rightarrow> state \<times> event list" where
  "fetchSessions nw st =
     (case get_sessions nw of
        Rejected msg \<Rightarrow> (st, [Fetch GET_sessions, ConsoleError [msg]])
      | Resolved res \<Rightarrow>
          if \<not> ok res then
            (st, [Fetch GET_sessions,
                  ConsoleError [''Failed to fetch sessions: '' @ string_of_nat (status res)]])
          else
            (case body_json res of
               Inl msg \<Rightarrow> (st, [Fetch GET_sessions, ConsoleError [msg]])
             | Inr data \<Rightarrow>
                 let st1 = st\<lparr>sessions := data\<rparr> in
                 if \<not> truthy (activeSessionId st) \<and> length data > 0 then
                   let firstId = session_id (hd data);
                       st2 = st1\<lparr>activeSessionId := firstId\<rparr>;
                       (st3, evs) = fetchMessages nw (activeSessionId st) firstId st2
                   in (st3, Fetch GET_sessions # evs)
                 else (st1, [Fetch GET_sessions])))"

text \<open>The click handler of a session button.\<close>

definition selectSession :: "net \<Rightarrow> session \<Rightarrow> state \<Rightarrow> state \<times> event list" where
  "selectSession nw s st =
     fetchMessages nw (activeSessionId st) (session_id s) (st\<lparr>activeSessionId := session_id s\<rparr>)"

definition beginEditMessage :: "message option \<Rightarrow> state \<Rightarrow> state" where
  "beginEditMessage m st =
     (case m of
        None \<Rightarrow> st
      | Some msg \<Rightarrow>
          if role msg \<noteq> ''user'' \<or> \<not> is_number (message_id msg) then st
          else st\<lparr>editingId := message_id msg,
                  editingOriginalText := message_text msg,
                  chatInput := message_text msg\<rparr>)"

definition cancelEdit :: "state \<Rightarrow> state" where
  "cancelEdit st = st\<lparr>editingId := JNull, editingOriginalText := [], chatInput := []\<rparr>"

text \<open>\<open>confirmed\<close> is the user's answer to \<open>window.confirm\<close>, asked after the type test.\<close>

definition handleDeleteMessage :: "net \<Rightarrow> bool \<Rightarrow> jsval \<Rightarrow> state \<Rightarrow> state \<times> event list" where
  "handleDeleteMessage nw confirmed i st =
     (if \<not> is_number i then (st, [])
      else if \<not> confirmed then (st, [])
      else
        let st1 = st\<lparr>error := []\<rparr> in
        case delete_message nw i of
          Rejected msg \<Rightarrow>
            (st1\<lparr>error := or_default msg ''Failed to delete message''\<rparr>,
             [Fetch (DELETE_message i)])
        | Resolved res \<Rightarrow>
            if \<not> ok res \<and> status res \<noteq> 204 then
              (st1\<lparr>error := or_default
                 (''Failed to delete message: '' @ string_of_nat (status res))
                 ''Failed to delete message''\<rparr>,
               [Fetch (DELETE_message i)])
            else
              (st1\<lparr>history := filter (\<lambda>m. message_id m \<noteq> i) (history st1)\<rparr>,
               [Fetch (DELETE_message i)]))"

text \<open>
  The click handler of the delete mark of session \<open>s\<close> (an anonymous function in the
  source). \<open>confirmed\<close> is the answer to \<open>window.confirm\<close>. It does not touch the error
  string before the request.
\<close>

definition handleDeleteSession :: "net \<Rightarrow> bool \<Rightarrow> session \<Rightarrow> state \<Rightarrow> state \<times> event list" where
  "handleDeleteSession nw confirmed s st =
     (if \<not> confirmed then (st, [])
      else
        case delete_session nw (session_id s) of
          Rejected msg \<Rightarrow>
            (st\<lparr>error := or_default msg ''Failed to delete chat session''\<rparr>,
             [Fetch (DELETE_session (session_id s)), ConsoleError [msg]])
        | Resolved delRes \<Rightarrow>
            if \<not> ok delRes \<and> status delRes \<noteq> 204 then
              (let msg = ''Failed to delete session: '' @ string_of_nat (status delRes) @ '' ''
                           @ statusText delRes @ '' - '' @ body_text delRes
               in (st\<lparr>error := or_default msg ''Failed to delete chat session''\<rparr>,
                   [Fetch (DELETE_session (session_id s)), ConsoleError [msg]]))
            else
              (let st1 = st\<lparr>sessions := filter (\<lambda>sess. session_id sess \<noteq> session_id s) (sessions st)\<rparr>;
                   st2 = (if activeSessionId st = session_id s
                          then st1\<lparr>activeSessionId := JNull, history := []\<rparr>
                          else st1)
               in (st2, [Fetch (DELETE_session (session_id s))])))"

text \<open>
  \<open>sendNewChatMessage\<close>. The body of \<open>try\<close> is evaluated in two stages, the creation of
  a session when none is active and the chat request; a stage yields \<open>Inl\<close> with the
  message of the error it throws. \<open>catch\<close> and \<open>finally\<close> follow.
\<close>

definition sendNewChatMessage :: "net \<Rightarrow> state \<Rightarrow> state \<times> event list" where
  "sendNewChatMessage nw st =
     (if trim (chatInput st) = [] then (st, [])
      else
        let st1 = st\<lparr>chatLoading := True, error := []\<rparr>;
            (sess, st2, evs1) =
              (if \<not> truthy (activeSessionId st) then
                 (case post_sessions nw of
                    Rejected msg \<Rightarrow> (Inl msg, st1, [Fetch POST_sessions])
                  | Resolved sessionRes \<Rightarrow>
                      if \<not> ok sessionRes then
                        (Inl (''Failed to create session: '' @ string_of_nat (status sessionRes)
                                @ '' '' @ statusText sessionRes @ '' - '' @ body_text sessionRes),
                         st1, [Fetch POST_sessions])
                      else
                        (case body_json sessionRes of
                           Inl msg \<Rightarrow> (Inl msg, st1, [Fetch POST_sessions])
                         | Inr created \<Rightarrow>
                             (Inr (session_id created),
                              st1\<lparr>activeSessionId := session_id created,
                                   sessions := created # sessions st1\<rparr>,
                              [Fetch POST_sessions])))
               else (Inr (activeSessionId st), st1, []));
            (outcome, st3, evs2) =
              (case sess of
                 Inl msg \<Rightarrow> (Inl msg, st2, [])
               | Inr sessionId \<Rightarrow>
                   (case post_chat nw (chatInput st) sessionId of
                      Rejected msg \<Rightarrow> (Inl msg, st2, [Fetch (POST_chat (chatInput st) sessionId)])
                    | Resolved res \<Rightarrow>
                        if \<not> ok res then
                          (Inl (''Chat request failed: '' @ string_of_nat (status res) @ '' ''
                                  @ statusText res @ '' - '' @ body_text res),
                           st2, [Fetch (POST_chat (chatInput st) sessionId)])
                        else
                          (case body_json res of
                             Inl msg \<Rightarrow> (Inl msg, st2, [Fetch (POST_chat (chatInput st) sessionId)])
                           | Inr data \<Rightarrow>
                               let (st', evs) = fetchMessages nw (activeSessionId st) sessionId st2
                               in (Inr (), st'\<lparr>chatInput := []\<rparr>,
                                   Fetch (POST_chat (chatInput st) sessionId) # evs))));
            st4 = (case outcome of
                     Inl msg \<Rightarrow> st3\<lparr>error := or_default msg ''Failed to send chat message''\<rparr>
                   | Inr u \<Rightarrow> st3)
        in (st4\<lparr>chatLoading := False\<rparr>, evs1 @ evs2))"

text \<open>
  \<open>saveEditedMessage\<close>. The inner \<open>try\<close> around the regenerate request swallows its
  failures after writing them to the console; the history is fetched again only in the
  branch \<open>regenRes.ok\<close>.
\<close>

definition saveEditedMessage :: "net \<Rightarrow> state \<Rightarrow> state \<times> event list" where
  "saveEditedMessage nw st =
     (if \<not> truthy (editingId st) \<or> trim (chatInput st) = [] then (st, [])
      else
        let newText = chatInput st;
            st1 = st\<lparr>chatLoading := True, error := []\<rparr>;
            patch = Fetch (PATCH_message (editingId st) newText);
            (outcome, st2, evs) =
              (case patch_message nw (editingId st) newText of
                 Rejected msg \<Rightarrow> (Inl msg, st1, [patch])
               | Resolved res \<Rightarrow>
                   if \<not> ok res then
                     (Inl (''Update failed: '' @ string_of_nat (status res) @ '' ''
                             @ statusText res @ '' - '' @ body_text res),
                      st1, [patch])
                   else
                     (case body_json res of
                        Inl msg \<Rightarrow> (Inl msg, st1, [patch])
                      | Inr updated \<Rightarrow>
                          let st_h = st1\<lparr>history :=
                                 map (\<lambda>m. if message_id m = message_id updated then updated else m)
                                   (history st1)\<rparr>;
                              regen = Fetch (POST_regenerate (message_id updated));
                              (st_r, evs_r) =
                                (case post_regenerate nw (message_id updated) of
                                   Rejected e \<Rightarrow>
                                     (st_h, [regen, ConsoleError [''Regenerate request error:'', e]])
                                 | Resolved regenRes \<Rightarrow>
                                     if ok regenRes then
                                       (let (st', evs') =
                                              fetchMessages nw (activeSessionId st)
                                                (message_session updated) st_h
                                        in (st', regen # evs'))
                                     else
                                       (st_h, [regen,
                                          ConsoleError [''Regenerate failed:'',
                                            string_of_nat (status regenRes), body_text regenRes]]))
                          in (Inr (),
                              st_r\<lparr>editingId := JNull, editingOriginalText := [], chatInput := []\<rparr>,
                              patch # evs_r)));
            st3 = (case outcome of
                     Inl msg \<Rightarrow> st2\<lparr>error := or_default msg ''Failed to update message''\<rparr>
                   | Inr u \<Rightarrow> st2)
        in (st3\<lparr>chatLoading := False\<rparr>, evs))"

definition handleSubmit :: "net \<Rightarrow> state \<Rightarrow> state \<times> event list" where
  "handleSubmit nw st =
     (if truthy (editingId st) then saveEditedMessage nw st else sendNewChatMessage nw st)"

text \<open>The requests among the events of a trace, in order.\<close>

fun requests :: "event list \<Rightarrow> request list" where
  "requests [] = []"
| "requests (Fetch r # evs) = r # requests evs"
| "requests (ConsoleError a # evs) = requests evs"

text \<open>The error banner is rendered by \<open>{error && ...}\<close>: it shows when the string is not empty.\<close>

definition error_shown :: "state \<Rightarrow> bool" where
  "error_shown st = (error st \<noteq> [])"

section \<open>Outcomes of a request\<close>

text \<open>
  A request succeeds with payload \<open>v\<close> when it resolves with a status from 200 to 299 and
  a body that parses to \<open>v\<close>; it fails when it rejects (a network error) or resolves with
  another status.
\<close>

definition payload :: "'a fetched \<Rightarrow> 'a option" where
  "payload f =
     (case f of
        Rejected msg \<Rightarrow> None
      | Resolved res \<Rightarrow>
          if ok res then (case body_json res of Inl msg \<Rightarrow> None | Inr v \<Rightarrow> Some v) else None)"

definition failed :: "'a fetched \<Rightarrow> bool" where
  "failed f = (case f of Rejected msg \<Rightarrow> True | Resolved res \<Rightarrow> \<not> ok res)"

text \<open>
  The message of the error that the \<open>try\<close> block of a handler throws on the answer \<open>f\<close>:
  the message of the rejection, the template text for a status outside 200 to 299, or
  the message of the JSON parser.
\<close>

definition thrown :: "string \<Rightarrow> 'a fetched \<Rightarrow> string" where
  "thrown prefix f =
     (case f of
        Rejected msg \<Rightarrow> msg
      | Resolved res \<Rightarrow>
          if \<not> ok res then
            prefix @ string_of_nat (status res) @ '' '' @ statusText res @ '' - '' @ body_text res
          else (case body_json res of Inl msg \<Rightarrow> msg | Inr v \<Rightarrow> []))"

text \<open>
  The session a send is addressed to: the active one, or the one created for it; there is
  none when the creation fails. The send succeeds when the chat request for that session
  succeeds.
\<close>

definition send_session :: "net \<Rightarrow> state \<Rightarrow> jsval option" where
  "send_session nw st =
     (if truthy (activeSessionId st) then Some (activeSessionId st)
      else map_option session_id (payload (post_sessions nw)))"

definition send_succeeds :: "net \<Rightarrow> state \<Rightarrow> bool" where
  "send_succeeds nw st =
     (case send_session nw st of
        None \<Rightarrow> False
      | Some sid \<Rightarrow> payload (post_chat nw (chatInput st) sid) \<noteq> None)"

text \<open>
  A message is in edit state when the edit pointer is set (truthy, as \<open>handleSubmit\<close> and
  the banner test it) and points at the message.
\<close>

definition in_edit_state :: "state \<Rightarrow> message \<Rightarrow> bool" where
  "in_edit_state st m = (truthy (editingId st) \<and> message_id m = editingId st)"

text \<open>A trace reloads the history when it holds a request for the messages of a session.\<close>

fun is_reload :: "request \<Rightarrow> bool" where
  "is_reload (GET_messages sid) = True"
| "is_reload r = False"

definition reloaded :: "event list \<Rightarrow> bool" where
  "reloaded evs = list_ex is_reload (requests evs)"

section \<open>Concrete servers and states\<close>

definition example_session :: session where
  "example_session =
     \<lparr>session_id = JNum 1, title = None, session_created = ''2024-05-01T10:00:00Z''\<rparr>"

definition other_session :: session where
  "other_session =
     \<lparr>session_id = JNum 2, title = Some ''Older chat'', session_created = ''2024-04-30T09:00:00Z''\<rparr>"

definition user_message :: "int \<Rightarrow> string \<Rightarrow> message" where
  "user_message i t =
     \<lparr>message_id = JNum i, message_session = JNum 1, role = ''user'', message_text = t,
      message_created = ''2024-05-01T10:00:01Z''\<rparr>"

definition assistant_message :: "int \<Rightarrow> string \<Rightarrow> message" where
  "assistant_message i t =
     \<lparr>message_id = JNum i, message_session = JNum 1, role = ''assistant'', message_text = t,
      message_created = ''2024-05-01T10:00:02Z''\<rparr>"

definition example_history :: "message list" where
  "example_history = [user_message 10 ''Hello'', assistant_message 11 ''Hi, how can I help?'']"

definition no_content :: "unit response" where
  "no_content = Response 204 ''No Content'' [] (Inl ''Unexpected end of JSON input'')"

definition server_error :: "'a response" where
  "server_error = Response 500 ''Internal Server Error'' ''boom'' (Inl ''Unexpected token b'')"

text \<open>A server that answers every request with success.\<close>

definition example_net :: net where
  "example_net =
     \<lparr>get_sessions = Resolved (Response 200 ''OK'' [] (Inr [example_session])),
      post_sessions = Resolved (Response 201 ''Created'' [] (Inr example_session)),
      delete_session = (\<lambda>i. Resolved no_content),
      get_messages = (\<lambda>i. Resolved (Response 200 ''OK'' [] (Inr example_history))),
      post_chat = (\<lambda>t i. Resolved (Response 200 ''OK'' [] (Inr ()))),
      patch_message = (\<lambda>i t. Resolved (Response 200 ''OK'' [] (Inr (user_message 10 t)))),
      post_regenerate = (\<lambda>i. Resolved (Response 200 ''OK'' [] (Inr ()))),
      delete_message = (\<lambda>i. Resolved no_content)\<rparr>"

text \<open>The page with one session open, its history loaded, and the user editing message 10.\<close>

definition editing_state :: state where
  "editing_state =
     \<lparr>sessions = [example_session], activeSessionId = JNum 1, history = example_history,
      loading = False, error = [], chatInput = ''Hello again'', chatLoading = False,
      editingId = JNum 10, editingOriginalText = ''Hello''\<rparr>"

text \<open>
  The server of the scenario: it creates session 1, accepts the chat message \<open>Hello\<close> for
  session 1 and returns \<open>msgs\<close> as the messages of session 1; every other request fails.
\<close>

definition hello_net :: "message list \<Rightarrow> net" where
  "hello_net msgs =
     \<lparr>get_sessions = Rejected ''Failed to fetch'',
      post_sessions = Resolved (Response 201 ''Created'' [] (Inr example_session)),
      delete_session = (\<lambda>i. Rejected ''Failed to fetch''),
      get_messages = (\<lambda>i. if i = JNum 1 then Resolved (Response 200 ''OK'' [] (Inr msgs))
                           else Resolved server_error),
      post_chat = (\<lambda>t i. if t = ''Hello'' \<and> i = JNum 1
                          then Resolved (Response 200 ''OK'' [] (Inr ()))
                          else Resolved server_error),
      patch_message = (\<lambda>i t. Rejected ''Failed to fetch''),
      post_regenerate = (\<lambda>i. Rejected ''Failed to fetch''),
      delete_message = (\<lambda>i. Rejected ''Failed to fetch'')\<rparr>"

text \<open>
  A state the page reaches with an error on display: the page mounts and loads its one
  session, the user types \<open>Hello\<close>, and the chat request of the send is answered 500.
\<close>

definition mounted_state :: state where
  "mounted_state = fst (fetchSessions example_net initial_state)"

definition failed_send_state :: state where
  "failed_send_state =
     fst (sendNewChatMessage (example_net\<lparr>post_chat := \<lambda>t i. Resolved server_error\<rparr>)
            (mounted_state\<lparr>chatInput := ''Hello''\<rparr>))"

section \<open>Facts about strings and outcomes\<close>

lemma dropWhile_all_iff: "(\<forall>x\<in>set (dropWhile P s). P x) \<longleftrightarrow> (\<forall>x\<in>set s. P x)"
proof (cases "dropWhile P s")
  case Nil
  then have "\<forall>x\<in>set s. P x" by (simp add: dropWhile_eq_Nil_conv)
  then show ?thesis by (auto dest: set_dropWhileD)
next
  case (Cons y ys)
  then have "dropWhile P s \<noteq> []" by simp
  then have "\<not> P (hd (dropWhile P s))" by (rule hd_dropWhile)
  with Cons have "\<not> P y" by simp
  moreover have "y \<in> set (dropWhile P s)" using Cons by simp
  moreover from this have "y \<in> set s" by (rule set_dropWhileD)
  ultimately show ?thesis by blast
qed

text \<open>The guard \<open>!chatInput.trim()\<close> holds exactly for the texts made of white space only.\<close>

lemma trim_empty_iff: "trim s = [] \<longleftrightarrow> list_all is_ws s"
  by (simp add: trim_def list_all_iff dropWhile_eq_Nil_conv dropWhile_all_iff)

lemma or_default_nonempty: "dflt \<noteq> [] \<Longrightarrow> or_default msg dflt \<noteq> []"
  by (simp add: or_default_def)

lemma payload_SomeD:
  "payload f = Some v \<Longrightarrow> \<exists>res. f = Resolved res \<and> ok res \<and> body_json res = Inr v"
  by (auto simp: payload_def split: fetched.splits if_splits sum.splits)

lemma payload_NoneD:
  "payload f = None \<Longrightarrow>
     (\<exists>msg. f = Rejected msg) \<or> (\<exists>res. f = Resolved res \<and> \<not> ok res)
     \<or> (\<exists>res msg. f = Resolved res \<and> ok res \<and> body_json res = Inl msg)"
  by (auto simp: payload_def split: fetched.splits if_splits sum.splits)

lemma failedD:
  "failed f \<Longrightarrow> (\<exists>msg. f = Rejected msg) \<or> (\<exists>res. f = Resolved res \<and> \<not> ok res)"
  by (auto simp: failed_def split: fetched.splits)

lemma not_failedD: "\<not> failed f \<Longrightarrow> \<exists>res. f = Resolved res \<and> ok res"
  by (auto simp: failed_def split: fetched.splits)

section \<open>The paths of the handlers\<close>

lemma fetchMessages_ok:
  assumes "truthy sid" "payload (get_messages nw sid) = Some msgs"
  shows "fetchMessages nw a sid st =
           (st\<lparr>loading := False, error := [], history := msgs\<rparr>, [Fetch (GET_messages sid)])"
proof -
  from assms(1) have "sid \<noteq> JUndefined" by auto
  with assms(1) payload_SomeD [OF assms(2)] show ?thesis
    by (auto simp: fetchMessages_def Let_def)
qed



lemma fetchMessages_frame:
  "sessions (fst (fetchMessages nw a sid st)) = sessions st"
  "activeSessionId (fst (fetchMessages nw a sid st)) = activeSessionId st"
  "chatInput (fst (fetchMessages nw a sid st)) = chatInput st"
  "chatLoading (fst (fetchMessages nw a sid st)) = chatLoading st"
  "editingId (fst (fetchMessages nw a sid st)) = editingId st"
  "editingOriginalText (fst (fetchMessages nw a sid st)) = editingOriginalText st"
  by (simp_all add: fetchMessages_def Let_def split: fetched.splits sum.splits)

lemma send_create_failed:
  assumes "trim (chatInput st) \<noteq> []" "\<not> truthy (activeSessionId st)"
    and "payload (post_sessions nw) = None"
  shows "sendNewChatMessage nw st =
           (st\<lparr>chatLoading := False, error := or_default (thrown ''Failed to create session: '' (post_sessions nw)) ''Failed to send chat message''\<rparr>,
            [Fetch POST_sessions])"
  using payload_NoneD [OF assms(3)] assms(1,2)
  by (elim disjE exE conjE)
     (simp_all add: sendNewChatMessage_def Let_def thrown_def)

lemma send_chat_ok_active:
  assumes "trim (chatInput st) \<noteq> []" "truthy (activeSessionId st)"
    and "payload (post_chat nw (chatInput st) (activeSessionId st)) = Some u"
  shows "sendNewChatMessage nw st =
           (fst (fetchMessages nw (activeSessionId st) (activeSessionId st)
                   (st\<lparr>chatLoading := True, error := []\<rparr>))
              \<lparr>chatInput := [], chatLoading := False\<rparr>,
            Fetch (POST_chat (chatInput st) (activeSessionId st))
              # snd (fetchMessages nw (activeSessionId st) (activeSessionId st)
                      (st\<lparr>chatLoading := True, error := []\<rparr>)))"
  using payload_SomeD [OF assms(3)] assms(1,2)
  by (elim disjE exE conjE) (simp add: sendNewChatMessage_def split_def Let_def)


lemma send_chat_failed_active:
  assumes "trim (chatInput st) \<noteq> []" "truthy (activeSessionId st)"
    and "payload (post_chat nw (chatInput st) (activeSessionId st)) = None"
  shows "sendNewChatMessage nw st =
           (st\<lparr>chatLoading := False, error := or_default (thrown ''Chat request failed: '' (post_chat nw (chatInput st) (activeSessionId st))) ''Failed to send chat message''\<rparr>,
            [Fetch (POST_chat (chatInput st) (activeSessionId st))])"
  using payload_NoneD [OF assms(3)] assms(1,2)
  by (elim disjE exE conjE)
     (simp_all add: sendNewChatMessage_def Let_def thrown_def)

lemma send_chat_failed_created:
  assumes "trim (chatInput st) \<noteq> []" "\<not> truthy (activeSessionId st)"
    and "payload (post_sessions nw) = Some created"
    and "payload (post_chat nw (chatInput st) (session_id created)) = None"
  shows "sendNewChatMessage nw st =
           (st\<lparr>chatLoading := False, error := or_default (thrown ''Chat request failed: '' (post_chat nw (chatInput st) (session_id created))) ''Failed to send chat message'',
               activeSessionId := session_id created, sessions := created # sessions st\<rparr>,
            [Fetch POST_sessions, Fetch (POST_chat (chatInput st) (session_id created))])"
  using payload_NoneD [OF assms(4)] payload_SomeD [OF assms(3)] assms(1,2)
  by (elim disjE exE conjE)
     (simp_all add: sendNewChatMessage_def Let_def thrown_def)

lemma send_chat_ok_created:
  assumes "trim (chatInput st) \<noteq> []" "\<not> truthy (activeSessionId st)"
    and "payload (post_sessions nw) = Some created"
    and "payload (post_chat nw (chatInput st) (session_id created)) = Some u"
  shows "sendNewChatMessage nw st =
           (fst (fetchMessages nw (activeSessionId st) (session_id created)
                   (st\<lparr>chatLoading := True, error := [],
                       activeSessionId := session_id created,
                       sessions := created # sessions st\<rparr>))
              \<lparr>chatInput := [], chatLoading := False\<rparr>,
            Fetch POST_sessions # Fetch (POST_chat (chatInput st) (session_id created))
              # snd (fetchMessages nw (activeSessionId st) (session_id created)
                      (st\<lparr>chatLoading := True, error := [],
                          activeSessionId := session_id created,
                          sessions := created # sessions st\<rparr>)))"
  using payload_SomeD [OF assms(4)] payload_SomeD [OF assms(3)] assms(1,2)
  by (elim disjE exE conjE) (simp add: sendNewChatMessage_def split_def Let_def)

lemma save_patch_failed:
  assumes "truthy (editingId st)" "trim (chatInput st) \<noteq> []"
    and "payload (patch_message nw (editingId st) (chatInput st)) = None"
  shows "saveEditedMessage nw st =
           (st\<lparr>chatLoading := False,
               error := or_default
                 (thrown ''Update failed: '' (patch_message nw (editingId st) (chatInput st)))
                 ''Failed to update message''\<rparr>,
            [Fetch (PATCH_message (editingId st) (chatInput st))])"
  using payload_NoneD [OF assms(3)] assms(1,2)
  by (elim disjE exE conjE) (simp_all add: saveEditedMessage_def Let_def thrown_def)

lemma save_regen_failed:
  assumes "truthy (editingId st)" "trim (chatInput st) \<noteq> []"
    and "payload (patch_message nw (editingId st) (chatInput st)) = Some updated"
    and "failed (post_regenerate nw (message_id updated))"
  shows "fst (saveEditedMessage nw st) =
           st\<lparr>chatLoading := False, error := [],
              history := map (\<lambda>m. if message_id m = message_id updated then updated else m)
                           (history st),
              editingId := JNull, editingOriginalText := [], chatInput := []\<rparr>"
    and "\<exists>c. snd (saveEditedMessage nw st) =
           [Fetch (PATCH_message (editingId st) (chatInput st)),
            Fetch (POST_regenerate (message_id updated)), ConsoleError c]"
  using failedD [OF assms(4)] payload_SomeD [OF assms(3)] assms(1,2)
  by (elim disjE exE conjE; simp add: saveEditedMessage_def Let_def)+

lemma save_regen_ok:
  assumes "truthy (editingId st)" "trim (chatInput st) \<noteq> []"
    and "payload (patch_message nw (editingId st) (chatInput st)) = Some updated"
    and "\<not> failed (post_regenerate nw (message_id updated))"
  shows "saveEditedMessage nw st =
           (fst (fetchMessages nw (activeSessionId st) (message_session updated)
                   (st\<lparr>chatLoading := True, error := [],
                       history := map (\<lambda>m. if message_id m = message_id updated then updated else m)
                                    (history st)\<rparr>))
              \<lparr>editingId := JNull, editingOriginalText := [], chatInput := [],
               chatLoading := False\<rparr>,
            Fetch (PATCH_message (editingId st) (chatInput st))
              # Fetch (POST_regenerate (message_id updated))
              # snd (fetchMessages nw (activeSessionId st) (message_session updated)
                      (st\<lparr>chatLoading := True, error := [],
                          history := map (\<lambda>m. if message_id m = message_id updated then updated else m)
                                       (history st)\<rparr>)))"
  using not_failedD [OF assms(4)] payload_SomeD [OF assms(3)] assms(1,2)
  by (elim disjE exE conjE) (simp add: saveEditedMessage_def Let_def split_def)

section \<open>Sending\<close>

text \<open>
  Claim C9. When the composer text is empty or consists of white space only, sending is a
  no-op: \<open>sendNewChatMessage\<close> returns the state it started from, the error string
  included, and issues no request; the same holds for the submit handler of the form,
  whichever branch it takes.
\<close>

theorem sendMessage_blank_noop:
  assumes "list_all is_ws (chatInput st)"
  shows "sendNewChatMessage nw st = (st, []) \<and> handleSubmit nw st = (st, [])"
  using assms
  by (simp add: sendNewChatMessage_def handleSubmit_def saveEditedMessage_def trim_empty_iff)

theorem sendMessage_blank_noop_witness:
  "list_all is_ws (chatInput (editing_state\<lparr>chatInput := [CHR '' '', CHR 0x09, CHR 0x0A]\<rparr>))
   \<and> sendNewChatMessage example_net (editing_state\<lparr>chatInput := [CHR '' '', CHR 0x09, CHR 0x0A]\<rparr>)
       = (editing_state\<lparr>chatInput := [CHR '' '', CHR 0x09, CHR 0x0A]\<rparr>, [])"
proof -
  have ws: "list_all is_ws (chatInput (editing_state\<lparr>chatInput := [CHR '' '', CHR 0x09, CHR 0x0A]\<rparr>))"
    by (simp add: is_ws_def)
  from sendMessage_blank_noop [OF ws, of example_net] ws show ?thesis by simp
qed

text \<open>
  Claim C1. Let the composer text be non-blank. When the send succeeds (the chat request
  for the session of the send is answered with success) and the request for the messages
  of that session returns \<open>msgs\<close>, the history afterwards is \<open>msgs\<close> itself, with nothing
  appended by the client, the composer is empty, no error is shown and that session is the
  active one. The composer is emptied exactly when the send succeeds: when it fails (no
  session could be created, or the chat request failed), the composer text and the history
  are as before and the error is shown. The session identifier is truthy, as
  \<open>fetchMessages\<close> requires of it.
\<close>

theorem sendMessage_reloads_history:
  assumes nb: "\<not> list_all is_ws (chatInput st)"
  shows "(send_session nw st = Some sid \<and> truthy sid
            \<and> payload (post_chat nw (chatInput st) sid) = Some u
            \<and> payload (get_messages nw sid) = Some msgs
          \<longrightarrow> history (fst (sendNewChatMessage nw st)) = msgs
              \<and> chatInput (fst (sendNewChatMessage nw st)) = []
              \<and> \<not> error_shown (fst (sendNewChatMessage nw st))
              \<and> activeSessionId (fst (sendNewChatMessage nw st)) = sid)
       \<and> (send_succeeds nw st \<longrightarrow> chatInput (fst (sendNewChatMessage nw st)) = [])
       \<and> (\<not> send_succeeds nw st
          \<longrightarrow> chatInput (fst (sendNewChatMessage nw st)) = chatInput st
              \<and> history (fst (sendNewChatMessage nw st)) = history st
              \<and> error_shown (fst (sendNewChatMessage nw st)))"
proof -
  let ?r = "sendNewChatMessage nw st"
  from nb have nb': "trim (chatInput st) \<noteq> []" by (simp add: trim_empty_iff)
  have ok_part: "chatInput (fst ?r) = []" if "send_succeeds nw st"
  proof (cases "truthy (activeSessionId st)")
    case True
    with that obtain u where "payload (post_chat nw (chatInput st) (activeSessionId st)) = Some u"
      by (auto simp: send_succeeds_def send_session_def)
    from send_chat_ok_active [OF nb' True this] show ?thesis by simp
  next
    case False
    with that obtain created u where "payload (post_sessions nw) = Some created"
      and "payload (post_chat nw (chatInput st) (session_id created)) = Some u"
      by (auto simp: send_succeeds_def send_session_def split: option.splits)
    from send_chat_ok_created [OF nb' False this] show ?thesis by simp
  qed
  have fail_part: "chatInput (fst ?r) = chatInput st \<and> history (fst ?r) = history st
      \<and> error_shown (fst ?r)" if "\<not> send_succeeds nw st"
  proof (cases "truthy (activeSessionId st)")
    case True
    with that have "payload (post_chat nw (chatInput st) (activeSessionId st)) = None"
      by (cases "payload (post_chat nw (chatInput st) (activeSessionId st))")
         (simp_all add: send_succeeds_def send_session_def)
    from send_chat_failed_active [OF nb' True this] show ?thesis
      by (simp add: error_shown_def or_default_nonempty)
  next
    case False
    show ?thesis
    proof (cases "payload (post_sessions nw)")
      case None
      from send_create_failed [OF nb' False None] show ?thesis
        by (simp add: error_shown_def or_default_nonempty)
    next
      case (Some created)
      with that False have "payload (post_chat nw (chatInput st) (session_id created)) = None"
        by (cases "payload (post_chat nw (chatInput st) (session_id created))")
           (simp_all add: send_succeeds_def send_session_def)
      from send_chat_failed_created [OF nb' False Some this] show ?thesis
        by (simp add: error_shown_def or_default_nonempty)
    qed
  qed
  have reload_part: "history (fst ?r) = msgs \<and> chatInput (fst ?r) = [] \<and> \<not> error_shown (fst ?r)
      \<and> activeSessionId (fst ?r) = sid"
    if s: "send_session nw st = Some sid" and t: "truthy sid"
      and c: "payload (post_chat nw (chatInput st) sid) = Some u"
      and g: "payload (get_messages nw sid) = Some msgs"
  proof (cases "truthy (activeSessionId st)")
    case True
    with s have sid: "sid = activeSessionId st" by (simp add: send_session_def)
    from send_chat_ok_active [OF nb' True c [unfolded sid]] fetchMessages_ok [OF t g]
    show ?thesis by (simp add: sid error_shown_def)
  next
    case False
    with s obtain created where cr: "payload (post_sessions nw) = Some created"
      and sid: "sid = session_id created"
      by (auto simp: send_session_def)
    from send_chat_ok_created [OF nb' False cr c [unfolded sid]] fetchMessages_ok [OF t g]
    show ?thesis by (simp add: sid error_shown_def)
  qed
  from ok_part fail_part reload_part show ?thesis by blast
qed


theorem sendMessage_reloads_history_witness:
  "\<not> list_all is_ws (chatInput (editing_state\<lparr>editingId := JNull\<rparr>))
   \<and> send_session example_net (editing_state\<lparr>editingId := JNull\<rparr>) = Some (JNum 1)
   \<and> truthy (JNum 1)
   \<and> payload (post_chat example_net (chatInput (editing_state\<lparr>editingId := JNull\<rparr>)) (JNum 1))
       = Some ()
   \<and> payload (get_messages example_net (JNum 1)) = Some example_history
   \<and> send_succeeds example_net (editing_state\<lparr>editingId := JNull\<rparr>)
   \<and> history (fst (sendNewChatMessage example_net (editing_state\<lparr>editingId := JNull\<rparr>)))
       = example_history
   \<and> chatInput (fst (sendNewChatMessage example_net (editing_state\<lparr>editingId := JNull\<rparr>))) = []
   \<and> \<not> send_succeeds (example_net\<lparr>post_chat := \<lambda>t i. Resolved server_error\<rparr>)
         (editing_state\<lparr>editingId := JNull\<rparr>)
   \<and> chatInput (fst (sendNewChatMessage (example_net\<lparr>post_chat := \<lambda>t i. Resolved server_error\<rparr>)
         (editing_state\<lparr>editingId := JNull\<rparr>))) = ''Hello again''"
proof -
  let ?st = "editing_state\<lparr>editingId := JNull\<rparr>"
  let ?bad = "example_net\<lparr>post_chat := \<lambda>t i. Resolved server_error\<rparr>"
  have nb: "\<not> list_all is_ws (chatInput ?st)"
    by (simp add: editing_state_def is_ws_def)
  have s: "send_session example_net ?st = Some (JNum 1)"
    by (simp add: send_session_def editing_state_def)
  have c: "payload (post_chat example_net (chatInput ?st) (JNum 1)) = Some ()"
    by (simp add: payload_def example_net_def ok_def)
  have g: "payload (get_messages example_net (JNum 1)) = Some example_history"
    by (simp add: payload_def example_net_def ok_def)
  have good: "send_succeeds example_net ?st"
    by (simp add: send_succeeds_def send_session_def editing_state_def payload_def
          example_net_def ok_def)
  have bad: "\<not> send_succeeds ?bad ?st"
    by (simp add: send_succeeds_def send_session_def editing_state_def payload_def
          server_error_def ok_def)
  have inp: "chatInput ?st = ''Hello again''"
    by (simp add: editing_state_def)
  from sendMessage_reloads_history [OF nb, of example_net "JNum 1" "()" example_history]
    sendMessage_reloads_history [OF nb, of ?bad "JNum 1" "()" example_history]
    nb s c g good bad inp
  show ?thesis by simp
qed

text \<open>
  Claim C2. A send with non-blank text and no active session issues the request that
  creates a session first; when the creation succeeds, the created session is the active
  one and the head of the session list, and the chat request, carrying the composer text
  and the new identifier, is the second request. In the scenario (no sessions, the user
  sends \<open>Hello\<close>, the server creates session 1 and returns \<open>msgs\<close> for it) the trace is
  one creation, one chat request with message \<open>Hello\<close> and session 1, one request of
  the messages of session 1; the final state has session 1 active and alone in the list,
  the history \<open>msgs\<close> and an empty composer.
\<close>

theorem sendMessage_creates_session_first:
  assumes nb: "\<not> list_all is_ws (chatInput st)" and na: "\<not> truthy (activeSessionId st)"
  shows "(\<exists>rest. snd (sendNewChatMessage nw st) = Fetch POST_sessions # rest)
       \<and> (payload (post_sessions nw) = Some created
          \<longrightarrow> activeSessionId (fst (sendNewChatMessage nw st)) = session_id created
              \<and> sessions (fst (sendNewChatMessage nw st)) = created # sessions st
              \<and> (\<exists>rest. snd (sendNewChatMessage nw st) =
                    Fetch POST_sessions # Fetch (POST_chat (chatInput st) (session_id created)) # rest))
       \<and> sendNewChatMessage (hello_net msgs) (initial_state\<lparr>chatInput := ''Hello''\<rparr>)
           = (initial_state\<lparr>activeSessionId := JNum 1, sessions := [example_session],
                            history := msgs\<rparr>,
              [Fetch POST_sessions, Fetch (POST_chat ''Hello'' (JNum 1)), Fetch (GET_messages (JNum 1))])"
proof -
  let ?r = "sendNewChatMessage nw st"
  from nb have nb': "trim (chatInput st) \<noteq> []" by (simp add: trim_empty_iff)
  have first: "\<exists>rest. snd ?r = Fetch POST_sessions # rest"
  proof (cases "payload (post_sessions nw)")
    case None
    from send_create_failed [OF nb' na None] show ?thesis by simp
  next
    case (Some created)
    show ?thesis
    proof (cases "payload (post_chat nw (chatInput st) (session_id created))")
      case None
      from send_chat_failed_created [OF nb' na Some None] show ?thesis by simp
    next
      case (Some u)
      from send_chat_ok_created [OF nb' na \<open>payload (post_sessions nw) = Some created\<close> Some]
      show ?thesis by simp
    qed
  qed
  have created: "activeSessionId (fst ?r) = session_id created
      \<and> sessions (fst ?r) = created # sessions st
      \<and> (\<exists>rest. snd ?r =
            Fetch POST_sessions # Fetch (POST_chat (chatInput st) (session_id created)) # rest)"
    if cr: "payload (post_sessions nw) = Some created"
  proof (cases "payload (post_chat nw (chatInput st) (session_id created))")
    case None
    from send_chat_failed_created [OF nb' na cr None] show ?thesis by simp
  next
    case (Some u)
    from send_chat_ok_created [OF nb' na cr Some] show ?thesis
      by (simp add: fetchMessages_frame)
  qed
  have scenario: "sendNewChatMessage (hello_net msgs) (initial_state\<lparr>chatInput := ''Hello''\<rparr>)
           = (initial_state\<lparr>activeSessionId := JNum 1, sessions := [example_session],
                            history := msgs\<rparr>,
              [Fetch POST_sessions, Fetch (POST_chat ''Hello'' (JNum 1)), Fetch (GET_messages (JNum 1))])"
    by (simp add: sendNewChatMessage_def hello_net_def initial_state_def example_session_def
          trim_def is_ws_def ok_def fetchMessages_def)
  from first created scenario show ?thesis by blast
qed

theorem sendMessage_creates_session_first_witness:
  "\<not> list_all is_ws (chatInput (initial_state\<lparr>chatInput := ''Hello''\<rparr>))
   \<and> \<not> truthy (activeSessionId (initial_state\<lparr>chatInput := ''Hello''\<rparr>))
   \<and> payload (post_sessions (hello_net example_history)) = Some example_session
   \<and> activeSessionId (fst (sendNewChatMessage (hello_net example_history)
         (initial_state\<lparr>chatInput := ''Hello''\<rparr>))) = JNum 1
   \<and> sessions (fst (sendNewChatMessage (hello_net example_history)
         (initial_state\<lparr>chatInput := ''Hello''\<rparr>))) = [example_session]"
proof -
  let ?st = "initial_state\<lparr>chatInput := ''Hello''\<rparr>"
  have nb: "\<not> list_all is_ws (chatInput ?st)"
    by (simp add: is_ws_def)
  have na: "\<not> truthy (activeSessionId ?st)"
    by (simp add: initial_state_def)
  have cr: "payload (post_sessions (hello_net example_history)) = Some example_session"
    by (simp add: payload_def hello_net_def ok_def)
  have i: "session_id example_session = JNum 1" "sessions ?st = []"
    by (simp_all add: example_session_def initial_state_def)
  from sendMessage_creates_session_first
         [OF nb na, of "hello_net example_history" example_session example_history] nb na cr i
  show ?thesis by simp
qed

text \<open>
  Claim C10. Creating a session and sending are not one atomic step. When a send with
  non-blank text and no active session gets its session created and then the chat request
  fails (it rejects, is answered with a status outside 200 to 299, or its body does not
  parse), the created session stays at the head of the list and stays active, the composer
  text and the history are as before, and the error shown is the message of the chat
  failure. The trace is the creation followed by the chat request.
\<close>

theorem create_then_send_not_atomic:
  assumes nb: "\<not> list_all is_ws (chatInput st)" and na: "\<not> truthy (activeSessionId st)"
    and cr: "payload (post_sessions nw) = Some created"
    and cf: "payload (post_chat nw (chatInput st) (session_id created)) = None"
  shows "sessions (fst (sendNewChatMessage nw st)) = created # sessions st
       \<and> activeSessionId (fst (sendNewChatMessage nw st)) = session_id created
       \<and> chatInput (fst (sendNewChatMessage nw st)) = chatInput st
       \<and> history (fst (sendNewChatMessage nw st)) = history st
       \<and> error (fst (sendNewChatMessage nw st)) =
           or_default (thrown ''Chat request failed: ''
                         (post_chat nw (chatInput st) (session_id created)))
             ''Failed to send chat message''
       \<and> error_shown (fst (sendNewChatMessage nw st))
       \<and> snd (sendNewChatMessage nw st) =
           [Fetch POST_sessions, Fetch (POST_chat (chatInput st) (session_id created))]"
proof -
  from nb have nb': "trim (chatInput st) \<noteq> []" by (simp add: trim_empty_iff)
  from send_chat_failed_created [OF nb' na cr cf] show ?thesis
    by (simp add: error_shown_def or_default_nonempty)
qed

theorem create_then_send_not_atomic_witness:
  "\<not> list_all is_ws (chatInput (initial_state\<lparr>chatInput := ''Hello''\<rparr>))
   \<and> \<not> truthy (activeSessionId (initial_state\<lparr>chatInput := ''Hello''\<rparr>))
   \<and> payload (post_sessions (hello_net [])) = Some example_session
   \<and> payload (post_chat (hello_net [] \<lparr>post_chat := \<lambda>t i. Resolved server_error\<rparr>)
        (chatInput (initial_state\<lparr>chatInput := ''Hello''\<rparr>)) (session_id example_session)) = None
   \<and> sessions (fst (sendNewChatMessage (hello_net [] \<lparr>post_chat := \<lambda>t i. Resolved server_error\<rparr>)
        (initial_state\<lparr>chatInput := ''Hello''\<rparr>))) = [example_session]
   \<and> chatInput (fst (sendNewChatMessage (hello_net [] \<lparr>post_chat := \<lambda>t i. Resolved server_error\<rparr>)
        (initial_state\<lparr>chatInput := ''Hello''\<rparr>))) = ''Hello''
   \<and> error (fst (sendNewChatMessage (hello_net [] \<lparr>post_chat := \<lambda>t i. Resolved server_error\<rparr>)
        (initial_state\<lparr>chatInput := ''Hello''\<rparr>)))
       = ''Chat request failed: 500 Internal Server Error - boom''"
proof -
  let ?st = "initial_state\<lparr>chatInput := ''Hello''\<rparr>"
  let ?nw = "hello_net [] \<lparr>post_chat := \<lambda>t i. Resolved server_error\<rparr>"
  have nb: "\<not> list_all is_ws (chatInput ?st)" by (simp add: is_ws_def)
  have na: "\<not> truthy (activeSessionId ?st)" by (simp add: initial_state_def)
  have cr: "payload (post_sessions ?nw) = Some example_session"
    by (simp add: payload_def hello_net_def ok_def)
  have cr': "payload (post_sessions (hello_net [])) = Some example_session"
    by (simp add: payload_def hello_net_def ok_def)
  have cf: "payload (post_chat ?nw (chatInput ?st) (session_id example_session)) = None"
    by (simp add: payload_def server_error_def ok_def)
  have i: "sessions ?st = []" "chatInput ?st = ''Hello''"
    by (simp_all add: initial_state_def)
  have n: "string_of_nat 500 = ''500''" by code_simp
  have e: "or_default (thrown ''Chat request failed: ''
              (post_chat ?nw (chatInput ?st) (session_id example_session)))
             ''Failed to send chat message''
           = ''Chat request failed: 500 Internal Server Error - boom''"
    by (simp add: or_default_def thrown_def server_error_def ok_def n)
  from create_then_send_not_atomic [OF nb na cr cf] nb na cr' cf i e show ?thesis by simp
qed

section \<open>Editing\<close>

text \<open>
  Claim C3. In an edit (edit pointer set, non-blank text) whose PATCH succeeds with the
  message \<open>updated\<close> and whose regenerate request fails (it rejects or is answered with a
  status outside 200 to 299), the history afterwards is the old one with \<open>updated\<close> put
  in place of the messages of the same identifier, the edit pointer, the original text
  and the composer are reset, no error is shown, and the failure appears only as a console
  message at the end of the trace. When the PATCH itself fails, the flow stops after that
  one request: the error is shown with the message of the failure, and the history, the
  edit pointer and the composer are as before.
\<close>

theorem editMessage_regenerate_failure_is_soft:
  assumes ed: "truthy (editingId st)" and nb: "\<not> list_all is_ws (chatInput st)"
  shows "(payload (patch_message nw (editingId st) (chatInput st)) = Some updated
            \<and> failed (post_regenerate nw (message_id updated))
          \<longrightarrow> history (fst (saveEditedMessage nw st))
                = map (\<lambda>m. if message_id m = message_id updated then updated else m) (history st)
              \<and> editingId (fst (saveEditedMessage nw st)) = JNull
              \<and> editingOriginalText (fst (saveEditedMessage nw st)) = []
              \<and> chatInput (fst (saveEditedMessage nw st)) = []
              \<and> \<not> error_shown (fst (saveEditedMessage nw st))
              \<and> (\<exists>c. snd (saveEditedMessage nw st) =
                    [Fetch (PATCH_message (editingId st) (chatInput st)),
                     Fetch (POST_regenerate (message_id updated)), ConsoleError c]))
       \<and> (payload (patch_message nw (editingId st) (chatInput st)) = None
          \<longrightarrow> error_shown (fst (saveEditedMessage nw st))
              \<and> error (fst (saveEditedMessage nw st)) =
                  or_default
                    (thrown ''Update failed: '' (patch_message nw (editingId st) (chatInput st)))
                    ''Failed to update message''
              \<and> history (fst (saveEditedMessage nw st)) = history st
              \<and> editingId (fst (saveEditedMessage nw st)) = editingId st
              \<and> chatInput (fst (saveEditedMessage nw st)) = chatInput st
              \<and> snd (saveEditedMessage nw st) =
                  [Fetch (PATCH_message (editingId st) (chatInput st))])"
proof -
  from nb have nb': "trim (chatInput st) \<noteq> []" by (simp add: trim_empty_iff)
  have soft: "history (fst (saveEditedMessage nw st))
                = map (\<lambda>m. if message_id m = message_id updated then updated else m) (history st)
              \<and> editingId (fst (saveEditedMessage nw st)) = JNull
              \<and> editingOriginalText (fst (saveEditedMessage nw st)) = []
              \<and> chatInput (fst (saveEditedMessage nw st)) = []
              \<and> \<not> error_shown (fst (saveEditedMessage nw st))
              \<and> (\<exists>c. snd (saveEditedMessage nw st) =
                    [Fetch (PATCH_message (editingId st) (chatInput st)),
                     Fetch (POST_regenerate (message_id updated)), ConsoleError c])"
    if p: "payload (patch_message nw (editingId st) (chatInput st)) = Some updated"
      and f: "failed (post_regenerate nw (message_id updated))"
    using save_regen_failed [OF ed nb' p f] by (simp add: error_shown_def)
  have hard: "error_shown (fst (saveEditedMessage nw st))
              \<and> error (fst (saveEditedMessage nw st)) =
                  or_default
                    (thrown ''Update failed: '' (patch_message nw (editingId st) (chatInput st)))
                    ''Failed to update message''
              \<and> history (fst (saveEditedMessage nw st)) = history st
              \<and> editingId (fst (saveEditedMessage nw st)) = editingId st
              \<and> chatInput (fst (saveEditedMessage nw st)) = chatInput st
              \<and> snd (saveEditedMessage nw st) =
                  [Fetch (PATCH_message (editingId st) (chatInput st))]"
    if p: "payload (patch_message nw (editingId st) (chatInput st)) = None"
    using save_patch_failed [OF ed nb' p] by (simp add: error_shown_def or_default_nonempty)
  from soft hard show ?thesis by blast
qed

theorem editMessage_regenerate_failure_is_soft_witness:
  "truthy (editingId editing_state) \<and> \<not> list_all is_ws (chatInput editing_state)
   \<and> payload (patch_message (example_net\<lparr>post_regenerate := \<lambda>i. Resolved server_error\<rparr>)
         (editingId editing_state) (chatInput editing_state))
       = Some (user_message 10 ''Hello again'')
   \<and> failed (post_regenerate (example_net\<lparr>post_regenerate := \<lambda>i. Resolved server_error\<rparr>)
         (message_id (user_message 10 ''Hello again'')))
   \<and> history (fst (saveEditedMessage (example_net\<lparr>post_regenerate := \<lambda>i. Resolved server_error\<rparr>)
         editing_state))
       = [user_message 10 ''Hello again'', assistant_message 11 ''Hi, how can I help?'']
   \<and> editingId (fst (saveEditedMessage (example_net\<lparr>post_regenerate := \<lambda>i. Resolved server_error\<rparr>)
         editing_state)) = JNull
   \<and> payload (patch_message (example_net\<lparr>patch_message := \<lambda>i t. Rejected ''Failed to fetch''\<rparr>)
         (editingId editing_state) (chatInput editing_state)) = None
   \<and> error (fst (saveEditedMessage (example_net\<lparr>patch_message := \<lambda>i t. Rejected ''Failed to fetch''\<rparr>)
         editing_state)) = ''Failed to fetch''
   \<and> editingId (fst (saveEditedMessage (example_net\<lparr>patch_message := \<lambda>i t. Rejected ''Failed to fetch''\<rparr>)
         editing_state)) = JNum 10"
proof -
  let ?soft = "example_net\<lparr>post_regenerate := \<lambda>i. Resolved server_error\<rparr>"
  let ?hard = "example_net\<lparr>patch_message := \<lambda>i t. Rejected ''Failed to fetch''\<rparr>"
  have ed: "truthy (editingId editing_state)" by (simp add: editing_state_def)
  have nb: "\<not> list_all is_ws (chatInput editing_state)"
    by (simp add: editing_state_def is_ws_def)
  have p: "payload (patch_message ?soft (editingId editing_state) (chatInput editing_state))
       = Some (user_message 10 ''Hello again'')"
    by (simp add: payload_def example_net_def ok_def editing_state_def)
  have f: "failed (post_regenerate ?soft (message_id (user_message 10 ''Hello again'')))"
    by (simp add: failed_def server_error_def ok_def)
  have q: "payload (patch_message ?hard (editingId editing_state) (chatInput editing_state)) = None"
    by (simp add: payload_def)
  have h: "map (\<lambda>m. if message_id m = message_id (user_message 10 ''Hello again'')
                     then user_message 10 ''Hello again'' else m) (history editing_state)
           = [user_message 10 ''Hello again'', assistant_message 11 ''Hi, how can I help?'']"
    by (simp add: editing_state_def example_history_def user_message_def assistant_message_def)
  have e: "or_default (thrown ''Update failed: ''
              (patch_message ?hard (editingId editing_state) (chatInput editing_state)))
             ''Failed to update message'' = ''Failed to fetch''"
    by (simp add: or_default_def thrown_def)
  have i: "editingId editing_state = JNum 10" by (simp add: editing_state_def)
  from editMessage_regenerate_failure_is_soft [OF ed nb, of ?soft "user_message 10 ''Hello again''"]
    editMessage_regenerate_failure_is_soft [OF ed nb, of ?hard "user_message 10 ''Hello again''"]
    ed nb p f q h e i
  show ?thesis by simp
qed

text \<open>
  Claim C4, as stated, fails: with a PATCH that succeeds and a regenerate request answered
  500, the trace holds the PATCH, the regenerate request and a console message, and no
  request for the messages; the history is the local splice, not the list the server would
  return.
\<close>

theorem editMessage_no_reload_counterexample:
  "truthy (editingId editing_state) \<and> \<not> list_all is_ws (chatInput editing_state)
   \<and> payload (patch_message (example_net\<lparr>post_regenerate := \<lambda>i. Resolved server_error\<rparr>)
         (editingId editing_state) (chatInput editing_state))
       = Some (user_message 10 ''Hello again'')
   \<and> payload (get_messages (example_net\<lparr>post_regenerate := \<lambda>i. Resolved server_error\<rparr>) (JNum 1))
       = Some example_history
   \<and> snd (saveEditedMessage (example_net\<lparr>post_regenerate := \<lambda>i. Resolved server_error\<rparr>)
         editing_state)
       = [Fetch (PATCH_message (JNum 10) ''Hello again''), Fetch (POST_regenerate (JNum 10)),
          ConsoleError [''Regenerate failed:'', ''500'', ''boom'']]
   \<and> \<not> reloaded (snd (saveEditedMessage
         (example_net\<lparr>post_regenerate := \<lambda>i. Resolved server_error\<rparr>) editing_state))
   \<and> history (fst (saveEditedMessage (example_net\<lparr>post_regenerate := \<lambda>i. Resolved server_error\<rparr>)
         editing_state)) \<noteq> example_history"
proof -
  have n: "string_of_nat 500 = ''500''" by code_simp
  show ?thesis
    by (simp add: saveEditedMessage_def editing_state_def example_net_def payload_def ok_def
          server_error_def trim_def is_ws_def user_message_def assistant_message_def
          example_history_def reloaded_def Let_def n)
qed

text \<open>
  Claim C4, amended. In an edit whose PATCH succeeds with \<open>updated\<close>, the history is
  requested again exactly when the regenerate request does not fail and the session of
  the reload (the session of \<open>updated\<close>, or the active one when that is undefined) is
  truthy. When the regenerate request succeeds and the messages of the session of
  \<open>updated\<close> are returned as \<open>msgs\<close>, the history is \<open>msgs\<close>; when the regenerate
  request fails, the history is the local splice.
\<close>

theorem editMessage_reloads_only_after_regenerate:
  assumes ed: "truthy (editingId st)" and nb: "\<not> list_all is_ws (chatInput st)"
    and p: "payload (patch_message nw (editingId st) (chatInput st)) = Some updated"
  shows "reloaded (snd (saveEditedMessage nw st))
           = (\<not> failed (post_regenerate nw (message_id updated))
              \<and> truthy (if message_session updated = JUndefined then activeSessionId st
                         else message_session updated))
       \<and> (\<not> failed (post_regenerate nw (message_id updated))
            \<and> truthy (message_session updated)
            \<and> payload (get_messages nw (message_session updated)) = Some msgs
          \<longrightarrow> history (fst (saveEditedMessage nw st)) = msgs
              \<and> snd (saveEditedMessage nw st) =
                  [Fetch (PATCH_message (editingId st) (chatInput st)),
                   Fetch (POST_regenerate (message_id updated)),
                   Fetch (GET_messages (message_session updated))])
       \<and> (failed (post_regenerate nw (message_id updated))
          \<longrightarrow> history (fst (saveEditedMessage nw st))
                = map (\<lambda>m. if message_id m = message_id updated then updated else m) (history st))"
proof -
  from nb have nb': "trim (chatInput st) \<noteq> []" by (simp add: trim_empty_iff)
  let ?f = "failed (post_regenerate nw (message_id updated))"
  have a: "reloaded (snd (saveEditedMessage nw st))
           = (\<not> ?f \<and> truthy (if message_session updated = JUndefined then activeSessionId st
                         else message_session updated))"
  proof (cases ?f)
    case True
    from save_regen_failed(2) [OF ed nb' p True] True show ?thesis
      by (auto simp: reloaded_def)
  next
    case False
    from save_regen_ok [OF ed nb' p False] False show ?thesis
      by (simp add: reloaded_def fetchMessages_def Let_def)
  qed
  have b: "history (fst (saveEditedMessage nw st)) = msgs
              \<and> snd (saveEditedMessage nw st) =
                  [Fetch (PATCH_message (editingId st) (chatInput st)),
                   Fetch (POST_regenerate (message_id updated)),
                   Fetch (GET_messages (message_session updated))]"
    if "\<not> ?f" and t: "truthy (message_session updated)"
      and g: "payload (get_messages nw (message_session updated)) = Some msgs"
    using save_regen_ok [OF ed nb' p that(1)] fetchMessages_ok [OF t g] by simp
  have c: "history (fst (saveEditedMessage nw st))
                = map (\<lambda>m. if message_id m = message_id updated then updated else m) (history st)"
    if ?f
    using save_regen_failed(1) [OF ed nb' p that] by simp
  from a b c show ?thesis by blast
qed

theorem editMessage_reloads_only_after_regenerate_witness:
  "truthy (editingId editing_state) \<and> \<not> list_all is_ws (chatInput editing_state)
   \<and> payload (patch_message example_net (editingId editing_state) (chatInput editing_state))
       = Some (user_message 10 ''Hello again'')
   \<and> \<not> failed (post_regenerate example_net (message_id (user_message 10 ''Hello again'')))
   \<and> truthy (message_session (user_message 10 ''Hello again''))
   \<and> payload (get_messages example_net (message_session (user_message 10 ''Hello again'')))
       = Some example_history
   \<and> reloaded (snd (saveEditedMessage example_net editing_state))
   \<and> history (fst (saveEditedMessage example_net editing_state)) = example_history
   \<and> failed (post_regenerate (example_net\<lparr>post_regenerate := \<lambda>i. Rejected ''Failed to fetch''\<rparr>)
         (message_id (user_message 10 ''Hello again'')))
   \<and> \<not> reloaded (snd (saveEditedMessage
         (example_net\<lparr>post_regenerate := \<lambda>i. Rejected ''Failed to fetch''\<rparr>) editing_state))"
proof -
  let ?bad = "example_net\<lparr>post_regenerate := \<lambda>i. Rejected ''Failed to fetch''\<rparr>"
  let ?u = "user_message 10 ''Hello again''"
  have ed: "truthy (editingId editing_state)" by (simp add: editing_state_def)
  have nb: "\<not> list_all is_ws (chatInput editing_state)"
    by (simp add: editing_state_def is_ws_def)
  have p: "payload (patch_message example_net (editingId editing_state) (chatInput editing_state))
       = Some ?u"
    by (simp add: payload_def example_net_def ok_def editing_state_def)
  have p': "payload (patch_message ?bad (editingId editing_state) (chatInput editing_state))
       = Some ?u"
    by (simp add: payload_def example_net_def ok_def editing_state_def)
  have r: "\<not> failed (post_regenerate example_net (message_id ?u))"
    by (simp add: failed_def example_net_def ok_def)
  have r': "failed (post_regenerate ?bad (message_id ?u))"
    by (simp add: failed_def)
  have t: "truthy (message_session ?u)" "message_session ?u \<noteq> JUndefined"
    by (simp_all add: user_message_def)
  have g: "payload (get_messages example_net (message_session ?u)) = Some example_history"
    by (simp add: payload_def example_net_def ok_def)
  from editMessage_reloads_only_after_regenerate [OF ed nb p, of example_history] editMessage_reloads_only_after_regenerate [OF ed nb p', of example_history]
    ed nb p r r' t g
  show ?thesis by (simp add: reloaded_def)
qed

text \<open>
  Claim C8. \<open>beginEditMessage\<close> changes nothing for a missing message, for a message
  whose role is not \<open>user\<close> and for one whose identifier is not a number; otherwise it
  sets the edit pointer to the identifier and loads the text into the composer, so the edit
  pointer changes only for a user message with a numeric identifier. \<open>saveEditedMessage\<close>
  is a no-op, without any request, unless the edit pointer is set and the text is
  non-blank. The edit pointer is one cell: two messages in edit state have the same
  identifier.
\<close>

theorem edit_mode_guards:
  "beginEditMessage None st = st
   \<and> (\<not> (role m = ''user'' \<and> is_number (message_id m)) \<longrightarrow> beginEditMessage (Some m) st = st)
   \<and> (role m = ''user'' \<and> is_number (message_id m)
      \<longrightarrow> beginEditMessage (Some m) st =
            st\<lparr>editingId := message_id m, editingOriginalText := message_text m,
               chatInput := message_text m\<rparr>)
   \<and> (editingId (beginEditMessage (Some m) st) \<noteq> editingId st
      \<longrightarrow> role m = ''user'' \<and> is_number (message_id m))
   \<and> (\<not> truthy (editingId st) \<or> list_all is_ws (chatInput st)
      \<longrightarrow> saveEditedMessage nw st = (st, []))
   \<and> (in_edit_state st m1 \<and> in_edit_state st m2 \<longrightarrow> message_id m1 = message_id m2)"
  by (auto simp: beginEditMessage_def saveEditedMessage_def trim_empty_iff in_edit_state_def)

theorem edit_mode_guards_witness:
  "role (assistant_message 11 ''Hi'') \<noteq> ''user''
   \<and> beginEditMessage (Some (assistant_message 11 ''Hi'')) initial_state = initial_state
   \<and> role (user_message 10 ''Hello'') = ''user'' \<and> is_number (message_id (user_message 10 ''Hello''))
   \<and> beginEditMessage (Some (user_message 10 ''Hello'')) initial_state
       = initial_state\<lparr>editingId := JNum 10, editingOriginalText := ''Hello'', chatInput := ''Hello''\<rparr>
   \<and> \<not> truthy (editingId initial_state)
   \<and> saveEditedMessage example_net initial_state = (initial_state, [])
   \<and> in_edit_state editing_state (user_message 10 ''Hello'')
   \<and> in_edit_state editing_state (user_message 10 ''Hello again'')
   \<and> message_id (user_message 10 ''Hello'') = message_id (user_message 10 ''Hello again'')"
proof -
  have h: "role (assistant_message 11 ''Hi'') \<noteq> ''user''"
    "role (user_message 10 ''Hello'') = ''user''"
    "is_number (message_id (user_message 10 ''Hello''))"
    "message_id (user_message 10 ''Hello'') = JNum 10"
    "message_text (user_message 10 ''Hello'') = ''Hello''"
    "\<not> truthy (editingId initial_state)"
    "in_edit_state editing_state (user_message 10 ''Hello'')"
    "in_edit_state editing_state (user_message 10 ''Hello again'')"
    by (simp_all add: assistant_message_def user_message_def initial_state_def
          in_edit_state_def editing_state_def)
  from edit_mode_guards [of initial_state "assistant_message 11 ''Hi''" example_net
             "user_message 10 ''Hello''" "user_message 10 ''Hello again''"]
    edit_mode_guards [of initial_state "user_message 10 ''Hello''" example_net]
    edit_mode_guards [of editing_state "user_message 10 ''Hello''" example_net
             "user_message 10 ''Hello''" "user_message 10 ''Hello again''"]
    h
  show ?thesis by simp
qed

section \<open>Sessions\<close>

text \<open>
  Claim C5, as stated, fails on the edit pointer: creating a session while message 10 is
  being edited leaves \<open>editingId\<close> and \<open>editingOriginalText\<close> as they were, and
  empties only the composer text.
\<close>

theorem createSession_keeps_editingId_counterexample:
  "payload (post_sessions example_net) = Some example_session
   \<and> editingId editing_state = JNum 10
   \<and> editingId (fst (handleCreateNewChat example_net editing_state)) = JNum 10
   \<and> editingOriginalText (fst (handleCreateNewChat example_net editing_state)) = ''Hello''
   \<and> chatInput (fst (handleCreateNewChat example_net editing_state)) = []"
  by (simp add: payload_def example_net_def ok_def handleCreateNewChat_def editing_state_def)

text \<open>
  Claim C5, amended. From every state, a successful \<open>handleCreateNewChat\<close> puts the
  session the server returned at the head of the list, makes it the active one, empties
  the history, the composer text and the error string, and leaves every other cell, the
  edit pointer among them, unchanged. The only request is the creation.
\<close>

theorem createSession_success:
  assumes "payload (post_sessions nw) = Some created"
  shows "handleCreateNewChat nw st =
           (st\<lparr>error := [], activeSessionId := session_id created,
               sessions := created # sessions st, history := [], chatInput := []\<rparr>,
            [Fetch POST_sessions])"
  using payload_SomeD [OF assms] by (auto simp: handleCreateNewChat_def)

theorem createSession_success_witness:
  "payload (post_sessions example_net) = Some example_session
   \<and> handleCreateNewChat example_net editing_state =
       (editing_state\<lparr>error := [], activeSessionId := session_id example_session,
          sessions := example_session # sessions editing_state, history := [], chatInput := []\<rparr>,
        [Fetch POST_sessions])"
proof -
  have p: "payload (post_sessions example_net) = Some example_session"
    by (simp add: payload_def example_net_def ok_def)
  from createSession_success [OF p, of editing_state] p show ?thesis by simp
qed

text \<open>
  Claim C6. When the user confirms and the DELETE is answered with success (a status from
  200 to 299; 204 is named in the test), the sessions with the identifier of \<open>s\<close> leave
  the list. If \<open>s\<close> was the active session, the active pointer becomes null and the
  history empty; otherwise both are as before. Without confirmation nothing happens.
\<close>

theorem deleteSession_success:
  assumes "delete_session nw (session_id s) = Resolved res" and "ok res \<or> status res = 204"
  shows "sessions (fst (handleDeleteSession nw True s st))
           = filter (\<lambda>sess. session_id sess \<noteq> session_id s) (sessions st)
       \<and> s \<notin> set (sessions (fst (handleDeleteSession nw True s st)))
       \<and> (activeSessionId st = session_id s
          \<longrightarrow> activeSessionId (fst (handleDeleteSession nw True s st)) = JNull
              \<and> history (fst (handleDeleteSession nw True s st)) = [])
       \<and> (activeSessionId st \<noteq> session_id s
          \<longrightarrow> activeSessionId (fst (handleDeleteSession nw True s st)) = activeSessionId st
              \<and> history (fst (handleDeleteSession nw True s st)) = history st)
       \<and> snd (handleDeleteSession nw True s st) = [Fetch (DELETE_session (session_id s))]
       \<and> handleDeleteSession nw False s st = (st, [])"
  using assms by (auto simp: handleDeleteSession_def Let_def)

theorem deleteSession_success_witness:
  "delete_session example_net (session_id example_session) = Resolved no_content
   \<and> (ok no_content \<or> status no_content = 204)
   \<and> activeSessionId (editing_state\<lparr>sessions := [example_session, other_session]\<rparr>)
       = session_id example_session
   \<and> sessions (fst (handleDeleteSession example_net True example_session
            (editing_state\<lparr>sessions := [example_session, other_session]\<rparr>))) = [other_session]
   \<and> activeSessionId (fst (handleDeleteSession example_net True example_session
            (editing_state\<lparr>sessions := [example_session, other_session]\<rparr>))) = JNull
   \<and> history (fst (handleDeleteSession example_net True example_session
            (editing_state\<lparr>sessions := [example_session, other_session]\<rparr>))) = []
   \<and> activeSessionId (editing_state\<lparr>sessions := [example_session, other_session]\<rparr>)
       \<noteq> session_id other_session
   \<and> sessions (fst (handleDeleteSession example_net True other_session
            (editing_state\<lparr>sessions := [example_session, other_session]\<rparr>))) = [example_session]
   \<and> activeSessionId (fst (handleDeleteSession example_net True other_session
            (editing_state\<lparr>sessions := [example_session, other_session]\<rparr>))) = JNum 1
   \<and> history (fst (handleDeleteSession example_net True other_session
            (editing_state\<lparr>sessions := [example_session, other_session]\<rparr>))) = example_history"
proof -
  let ?st = "editing_state\<lparr>sessions := [example_session, other_session]\<rparr>"
  have d: "delete_session example_net (session_id example_session) = Resolved no_content"
    "delete_session example_net (session_id other_session) = Resolved no_content"
    by (simp_all add: example_net_def)
  have o: "ok no_content \<or> status no_content = 204"
    by (simp add: no_content_def)
  have a: "activeSessionId ?st = session_id example_session"
    "activeSessionId ?st \<noteq> session_id other_session"
    "session_id example_session \<noteq> session_id other_session"
    "activeSessionId ?st = JNum 1" "history ?st = example_history"
    "sessions ?st = [example_session, other_session]"
    by (simp_all add: editing_state_def example_session_def other_session_def)
  from deleteSession_success [OF d(1) o, of ?st] deleteSession_success [OF d(2) o, of ?st] d o a
  show ?thesis by simp
qed

section \<open>The error string\<close>

text \<open>
  Creating a session, loading the history, sending, saving an edit and deleting a message
  each call \<open>setError("")\<close> before their request. Once past their guards, their result
  does not depend on the error string they start with: it is the result they have when
  started with the empty one.
\<close>

lemma siblings_ignore_prior_error:
  "handleCreateNewChat nw (st\<lparr>error := e\<rparr>) = handleCreateNewChat nw (st\<lparr>error := []\<rparr>)
   \<and> (truthy (if sid = JUndefined then a else sid)
      \<longrightarrow> fetchMessages nw a sid (st\<lparr>error := e\<rparr>) = fetchMessages nw a sid (st\<lparr>error := []\<rparr>))
   \<and> (\<not> list_all is_ws (chatInput st)
      \<longrightarrow> sendNewChatMessage nw (st\<lparr>error := e\<rparr>) = sendNewChatMessage nw (st\<lparr>error := []\<rparr>))
   \<and> (truthy (editingId st) \<and> \<not> list_all is_ws (chatInput st)
      \<longrightarrow> saveEditedMessage nw (st\<lparr>error := e\<rparr>) = saveEditedMessage nw (st\<lparr>error := []\<rparr>))
   \<and> (is_number i
      \<longrightarrow> handleDeleteMessage nw True i (st\<lparr>error := e\<rparr>)
            = handleDeleteMessage nw True i (st\<lparr>error := []\<rparr>))"
proof -
  have 1: "handleCreateNewChat nw (st\<lparr>error := e\<rparr>) = handleCreateNewChat nw (st\<lparr>error := []\<rparr>)"
    by (simp add: handleCreateNewChat_def)
  have 2: "fetchMessages nw a sid (st\<lparr>error := e\<rparr>) = fetchMessages nw a sid (st\<lparr>error := []\<rparr>)"
    if "truthy (if sid = JUndefined then a else sid)"
    using that by (simp add: fetchMessages_def Let_def)
  have 3: "sendNewChatMessage nw (st\<lparr>error := e\<rparr>) = sendNewChatMessage nw (st\<lparr>error := []\<rparr>)"
    if "\<not> list_all is_ws (chatInput st)"
    using that
    by (simp add: sendNewChatMessage_def trim_empty_iff
          cong: fetched.case_cong sum.case_cong if_cong prod.case_cong)
  have 4: "saveEditedMessage nw (st\<lparr>error := e\<rparr>) = saveEditedMessage nw (st\<lparr>error := []\<rparr>)"
    if "truthy (editingId st)" "\<not> list_all is_ws (chatInput st)"
    using that
    by (simp add: saveEditedMessage_def trim_empty_iff
          cong: fetched.case_cong sum.case_cong if_cong prod.case_cong)
  have 5: "handleDeleteMessage nw True i (st\<lparr>error := e\<rparr>)
            = handleDeleteMessage nw True i (st\<lparr>error := []\<rparr>)" if "is_number i"
    using that by (simp add: handleDeleteMessage_def)
  from 1 2 3 4 5 show ?thesis by blast
qed

lemma string_of_nat_500: "string_of_nat 500 = ''500''"
  by code_simp

lemma mounted_state_eq:
  "mounted_state =
     initial_state\<lparr>sessions := [example_session], activeSessionId := JNum 1,
                   history := example_history\<rparr>"
  by (simp add: mounted_state_def fetchSessions_def fetchMessages_def example_net_def ok_def
        initial_state_def example_session_def Let_def)

lemma failed_send_state_eq:
  "failed_send_state =
     initial_state\<lparr>sessions := [example_session], activeSessionId := JNum 1,
                   history := example_history, chatInput := ''Hello'',
                   error := ''Chat request failed: 500 Internal Server Error - boom''\<rparr>"
  by (simp add: failed_send_state_def mounted_state_eq sendNewChatMessage_def initial_state_def
        trim_def is_ws_def server_error_def ok_def or_default_def string_of_nat_500 Let_def)

text \<open>
  Claim C7. Deleting a session can fail with an error shown to the user, so it is to clear
  the error string when it starts, as its five siblings do. The handler of the delete mark
  has no \<open>setError("")\<close>. In the state reached after a failed send, where the error
  \<open>Chat request failed: 500 Internal Server Error - boom\<close> is on display, the user deletes
  the session and confirms, and the server answers 204: the session leaves the list, the
  active pointer and the history are cleared, and the error of the earlier send is still
  there and still shown. From the same state, deleting a message and creating a session
  end with the empty error string.
\<close>

theorem deleteSession_keeps_stale_error:
  "error failed_send_state = ''Chat request failed: 500 Internal Server Error - boom''
   \<and> handleDeleteSession example_net True example_session failed_send_state
       = (failed_send_state\<lparr>sessions := [], activeSessionId := JNull, history := []\<rparr>,
          [Fetch (DELETE_session (JNum 1))])
   \<and> error (fst (handleDeleteSession example_net True example_session failed_send_state))
       = ''Chat request failed: 500 Internal Server Error - boom''
   \<and> error_shown (fst (handleDeleteSession example_net True example_session failed_send_state))
   \<and> error (fst (handleDeleteMessage example_net True (JNum 10) failed_send_state)) = []
   \<and> error (fst (handleCreateNewChat example_net failed_send_state)) = []"
  by (simp add: failed_send_state_eq handleDeleteSession_def handleDeleteMessage_def
        handleCreateNewChat_def example_net_def no_content_def ok_def initial_state_def
        example_session_def error_shown_def Let_def)

end
